theory Spec2Isabelle
  imports Main
begin

section \<open>The BGE-M3 embedding server (tools/embedding_server.py)\<close>

text \<open>
  The server is a thin HTTP layer over an external embedding library. The library is a
  black box: its constructor, its two encode operations and the objects it hands back
  are parameters of the model. Everything the handlers themselves do (the guard on the
  unset handle, the model-name check, the conversion of the library's output, the
  \<open>except Exception\<close> clauses, the logging) is translated from the source.

  An exception is represented by its message, the value of \<open>str(e)\<close>; only instances
  of Python's \<open>Exception\<close> are modelled, which is what the handlers' \<open>except\<close> clauses
  name. A computation that may raise returns \<open>exn + 'a\<close>, with \<open>Inl\<close> the exception.
\<close>

type_synonym exn = string

subsection \<open>Objects of the library\<close>

text \<open>
  The objects returned by the library are duck-typed: the handlers call \<open>emb.tolist()\<close>
  on each dense entry and read \<open>.indices.tolist()\<close>, \<open>.data.tolist()\<close> and \<open>.shape\<close> of
  each sparse entry. An object is modelled by the outcome of exactly these accesses.
  The element type of the numeric arrays is the parameter \<open>'f\<close>: the handlers only copy
  the numbers.
\<close>

record 'f dense_obj =
  tolist :: "exn + 'f list"

record 'f sparse_obj =
  indices_tolist :: "exn + int list"
  data_tolist :: "exn + 'f list"
  shape_attr :: "exn + nat list"

text \<open>The dictionary returned by an encode call, read as \<open>embeddings["dense"]\<close> and
  \<open>embeddings["sparse"]\<close>; each batch is iterated once.\<close>

record 'f native_embeddings =
  dense_batch :: "exn + 'f dense_obj list"
  sparse_batch :: "exn + 'f sparse_obj list"

text \<open>The global \<open>bge_m3_ef\<close>, when set: the fields of the library's embedding function
  that the server reads.\<close>

record 'f model_handle =
  ef_model_name :: string
  ef_dim :: "string \<rightharpoonup> int"
  encode_queries :: "string list \<Rightarrow> exn + 'f native_embeddings"
  encode_documents :: "string list \<Rightarrow> exn + 'f native_embeddings"

subsection \<open>Request and response models\<close>

record embedding_request =
  texts :: "string list"
  model_name :: string

text \<open>An entry of the \<open>"sparse"\<close> list of a response: the keys \<open>"indices"\<close>,
  \<open>"values"\<close> and \<open>"shape"\<close>.\<close>

record 'f sparse_vector =
  sv_indices :: "int list"
  sv_values :: "'f list"
  sv_shape :: "nat list"

datatype 'f emb_value = DenseList "'f list list" | SparseList "'f sparse_vector list"

text \<open>\<open>embeddings: Dict[str, Any]\<close>, in insertion order.\<close>

type_synonym 'f embeddings_dict = "(string \<times> 'f emb_value) list"

record 'f embedding_response =
  embeddings :: "'f embeddings_dict"
  error :: "string option"

text \<open>The body returned by \<open>GET /health\<close>: the keys \<open>"status"\<close>, \<open>"model"\<close> and
  \<open>"dimensions"\<close>.\<close>

record health_body =
  status :: string
  model_id :: string
  dimensions :: "(string \<times> int) list"

text \<open>What a handler hands to the framework: a value it returns (sent with status 200)
  or \<open>HTTPException(status_code, detail)\<close>.\<close>

datatype 'a http = Returned 'a | HTTPException nat string

fun status_code :: "'a http \<Rightarrow> nat" where
  "status_code (Returned _) = 200"
| "status_code (HTTPException c _) = c"

subsection \<open>Effects\<close>

datatype mode = Query | Document

datatype level = INFO | WARNING | ERROR

text \<open>One constructor for each message the source logs, carrying the values that its
  f-string interpolates.\<close>

datatype 'f log_msg =
    LoadingModel string string
  | ModelLoaded
  | FailedToLoad exn
  | UsingLocalModelPath string
  | LocalModelPathNotFound string
  | DenseDimension int
  | SparseDimension int
  | ModelMismatch string string
  | GeneratingQueryEmbeddings nat
  | GeneratedEmbeddings "'f embeddings_dict"
  | ErrorGeneratingEmbeddings exn
  | GeneratingDocumentEmbeddings nat
  | ErrorGeneratingDocumentEmbeddings exn
  | HealthCheckFailed exn

text \<open>The observable effects of the server, in the order they happen: a log record, a
  call of one of the library's encode operations, a call of the library's constructor
  (model name, device, fp16 flag) and an assignment to \<open>os.environ\<close>.\<close>

datatype 'f event =
    Log level "'f log_msg"
  | EncodeCall mode "string list"
  | Construct string string bool
  | SetEnv string string

fun is_encode_call :: "'f event \<Rightarrow> bool" where
  "is_encode_call (EncodeCall _ _) = True"
| "is_encode_call _ = False"

fun is_construct :: "'f event \<Rightarrow> bool" where
  "is_construct (Construct _ _ _) = True"
| "is_construct _ = False"

subsection \<open>Serialization of the library's output\<close>

text \<open>A list comprehension whose body may raise: the first exception ends it.\<close>

fun comprehension :: "('a \<Rightarrow> exn + 'b) \<Rightarrow> 'a list \<Rightarrow> exn + 'b list" where
  "comprehension f [] = Inr []"
| "comprehension f (x # xs) =
     (case f x of
        Inl e \<Rightarrow> Inl e
      | Inr y \<Rightarrow> (case comprehension f xs of Inl e \<Rightarrow> Inl e | Inr ys \<Rightarrow> Inr (y # ys)))"

definition serialize_sparse :: "'f sparse_obj \<Rightarrow> exn + 'f sparse_vector" where
  "serialize_sparse sparse_emb =
     (case indices_tolist sparse_emb of
        Inl e \<Rightarrow> Inl e
      | Inr is \<Rightarrow>
          (case data_tolist sparse_emb of
             Inl e \<Rightarrow> Inl e
           | Inr ds \<Rightarrow>
               (case shape_attr sparse_emb of
                  Inl e \<Rightarrow> Inl e
                | Inr sh \<Rightarrow> Inr \<lparr>sv_indices = is, sv_values = ds, sv_shape = sh\<rparr>)))"

text \<open>The dictionary \<open>serializable_embeddings\<close>: the \<open>"dense"\<close> entry is evaluated
  first, then the \<open>"sparse"\<close> entry.\<close>

definition serializable_embeddings :: "'f native_embeddings \<Rightarrow> exn + 'f embeddings_dict" where
  "serializable_embeddings emb =
     (case dense_batch emb of
        Inl e \<Rightarrow> Inl e
      | Inr dense \<Rightarrow>
          (case comprehension tolist dense of
             Inl e \<Rightarrow> Inl e
           | Inr dl \<Rightarrow>
               (case sparse_batch emb of
                  Inl e \<Rightarrow> Inl e
                | Inr sparse \<Rightarrow>
                    (case comprehension serialize_sparse sparse of
                       Inl e \<Rightarrow> Inl e
                     | Inr sl \<Rightarrow> Inr [(''dense'', DenseList dl), (''sparse'', SparseList sl)]))))"

subsection \<open>The handlers\<close>

text \<open>The handlers read the global \<open>bge_m3_ef\<close> (\<open>None\<close> while unset) and never assign
  it. Each returns the effects it caused and what it hands to the framework.\<close>

definition mismatch_warning :: "'f model_handle \<Rightarrow> embedding_request \<Rightarrow> 'f event list" where
  "mismatch_warning ef request =
     (if model_name request \<noteq> ef_model_name ef
      then [Log WARNING (ModelMismatch (model_name request) (ef_model_name ef))]
      else [])"

fun embed :: "'f model_handle option \<Rightarrow> embedding_request
    \<Rightarrow> 'f event list \<times> 'f embedding_response http" where
  "embed None request = ([], HTTPException 500 ''Embedding model not initialized'')"
| "embed (Some ef) request =
     (let before = mismatch_warning ef request
            @ [Log INFO (GeneratingQueryEmbeddings (length (texts request))),
               EncodeCall Query (texts request)]
      in case encode_queries ef (texts request) of
           Inl e \<Rightarrow>
             (before @ [Log ERROR (ErrorGeneratingEmbeddings e)],
              Returned \<lparr>embeddings = [], error = Some (''Failed to generate embeddings: '' @ e)\<rparr>)
         | Inr emb \<Rightarrow>
             (case serializable_embeddings emb of
                Inl e \<Rightarrow>
                  (before @ [Log ERROR (ErrorGeneratingEmbeddings e)],
                   Returned \<lparr>embeddings = [],
                     error = Some (''Failed to generate embeddings: '' @ e)\<rparr>)
              | Inr se \<Rightarrow>
                  (before @ [Log INFO (GeneratedEmbeddings se)],
                   Returned \<lparr>embeddings = se, error = None\<rparr>)))"

fun embed_document :: "'f model_handle option \<Rightarrow> embedding_request
    \<Rightarrow> 'f event list \<times> 'f embedding_response http" where
  "embed_document None request = ([], HTTPException 500 ''Embedding model not initialized'')"
| "embed_document (Some ef) request =
     (let before = mismatch_warning ef request
            @ [Log INFO (GeneratingDocumentEmbeddings (length (texts request))),
               EncodeCall Document (texts request)]
      in case encode_documents ef (texts request) of
           Inl e \<Rightarrow>
             (before @ [Log ERROR (ErrorGeneratingDocumentEmbeddings e)],
              Returned \<lparr>embeddings = [],
                error = Some (''Failed to generate document embeddings: '' @ e)\<rparr>)
         | Inr emb \<Rightarrow>
             (case serializable_embeddings emb of
                Inl e \<Rightarrow>
                  (before @ [Log ERROR (ErrorGeneratingDocumentEmbeddings e)],
                   Returned \<lparr>embeddings = [],
                     error = Some (''Failed to generate document embeddings: '' @ e)\<rparr>)
              | Inr se \<Rightarrow> (before, Returned \<lparr>embeddings = se, error = None\<rparr>)))"

definition test_text :: string where
  "test_text = ''This is a test sentence for health check.''"

text \<open>\<open>bge_m3_ef.dim.get(key, 0)\<close>.\<close>

definition dim_get :: "'f model_handle \<Rightarrow> string \<Rightarrow> int" where
  "dim_get ef key = (case ef_dim ef key of None \<Rightarrow> 0 | Some d \<Rightarrow> d)"

fun health_check :: "'f model_handle option \<Rightarrow> 'f event list \<times> health_body http" where
  "health_check None = ([], HTTPException 503 ''Embedding model not initialized'')"
| "health_check (Some ef) =
     (case encode_queries ef [test_text] of
        Inr _ \<Rightarrow>
          ([EncodeCall Query [test_text]],
           Returned \<lparr>status = ''healthy'', model_id = ef_model_name ef,
             dimensions = [(''dense'', dim_get ef ''dense''), (''sparse'', dim_get ef ''sparse'')]\<rparr>)
      | Inl e \<Rightarrow>
          ([EncodeCall Query [test_text], Log ERROR (HealthCheckFailed e)],
           HTTPException 503 (''Model check failed: '' @ e)))"

subsection \<open>The two POST routes\<close>

text \<open>\<open>POST /embed\<close> is served by \<open>embed\<close> with the library's \<open>encode_queries\<close>,
  \<open>POST /embed/document\<close> by \<open>embed_document\<close> with \<open>encode_documents\<close>. The mode names
  the route.\<close>

fun post :: "mode \<Rightarrow> 'f model_handle option \<Rightarrow> embedding_request
    \<Rightarrow> 'f event list \<times> 'f embedding_response http" where
  "post Query = embed"
| "post Document = embed_document"

fun encode_op :: "mode \<Rightarrow> 'f model_handle \<Rightarrow> string list \<Rightarrow> exn + 'f native_embeddings" where
  "encode_op Query ef = encode_queries ef"
| "encode_op Document ef = encode_documents ef"

text \<open>The fixed part of the \<open>error\<close> string of each route.\<close>

fun failure_prefix :: "mode \<Rightarrow> string" where
  "failure_prefix Query = ''Failed to generate embeddings: ''"
| "failure_prefix Document = ''Failed to generate document embeddings: ''"

subsection \<open>Well-formed sparse structures\<close>




subsection \<open>Concrete library instances\<close>

text \<open>Instances of the black box, on which the theorems below are evaluated. The first
  returns one dense array and one sparse structure per text; the second raises in both
  encode operations.\<close>

definition example_output :: "string list \<Rightarrow> nat native_embeddings" where
  "example_output ts =
     \<lparr>dense_batch = Inr (map (\<lambda>t. \<lparr>tolist = Inr [length t, 7]\<rparr>) ts),
      sparse_batch = Inr (map (\<lambda>t. \<lparr>indices_tolist = Inr [2, 5],
         data_tolist = Inr [length t, 1], shape_attr = Inr [1, 8]\<rparr>) ts)\<rparr>"

definition example_ef :: "nat model_handle" where
  "example_ef =
     \<lparr>ef_model_name = ''BAAI/bge-m3'',
      ef_dim = [''dense'' \<mapsto> 1024, ''sparse'' \<mapsto> 250002],
      encode_queries = (\<lambda>ts. Inr (example_output ts)),
      encode_documents = (\<lambda>ts. Inr (example_output (map rev ts)))\<rparr>"

definition failing_ef :: "nat model_handle" where
  "failing_ef =
     \<lparr>ef_model_name = ''BAAI/bge-m3'',
      ef_dim = Map.empty,
      encode_queries = (\<lambda>ts. Inl ''out of memory''),
      encode_documents = (\<lambda>ts. Inl ''out of memory'')\<rparr>"

definition example_request :: embedding_request where
  "example_request = \<lparr>texts = [''hello world''], model_name = ''BAAI/bge-m3''\<rparr>"

definition other_model_request :: embedding_request where
  "other_model_request = \<lparr>texts = [''hello world''], model_name = ''some/other-model''\<rparr>"

definition dimless_ef :: "nat model_handle" where
  "dimless_ef = example_ef\<lparr>ef_dim := [''colbert_vecs'' \<mapsto> 1024]\<rparr>"

definition two_texts_request :: embedding_request where
  "two_texts_request = \<lparr>texts = [''hello'', ''world!''], model_name = ''BAAI/bge-m3''\<rparr>"

text \<open>A library that returns one dense array and no sparse structure whatever the
  texts, and one whose sparse structures have arrays of different lengths and indices
  outside the shape.\<close>

definition miscounting_ef :: "nat model_handle" where
  "miscounting_ef =
     \<lparr>ef_model_name = ''BAAI/bge-m3'',
      ef_dim = [''dense'' \<mapsto> 1024, ''sparse'' \<mapsto> 250002],
      encode_queries = (\<lambda>ts. Inr \<lparr>dense_batch = Inr [\<lparr>tolist = Inr [3, 4]\<rparr>],
         sparse_batch = Inr []\<rparr>),
      encode_documents = (\<lambda>ts. Inr \<lparr>dense_batch = Inr [\<lparr>tolist = Inr [3, 4]\<rparr>],
         sparse_batch = Inr []\<rparr>)\<rparr>"



subsection \<open>Startup\<close>

text \<open>The process-wide state the startup handlers assign: the global \<open>bge_m3_ef\<close> and
  \<open>os.environ\<close>.\<close>

record 'f process =
  bge_m3_ef :: "'f model_handle option"
  environ :: "string \<rightharpoonup> string"

text \<open>The parsed command line (\<open>args\<close>); \<open>local_model_path\<close> defaults to \<open>None\<close>.\<close>

record args =
  host :: string
  port :: int
  model :: string
  local_model_path :: "string option"
  device :: string
  fp16 :: bool

text \<open>The functions of \<open>os.path\<close> the startup code calls. They belong to the standard
  library and the file system and are parameters.\<close>

record os_path =
  abspath :: "string \<Rightarrow> string"
  dirname :: "string \<Rightarrow> string"
  path_exists :: "string \<Rightarrow> bool"

text \<open>The library's constructor \<open>BGEM3EmbeddingFunction(model_name, device, use_fp16)\<close>,
  which returns a handle or raises.\<close>

type_synonym 'f constructor = "string \<Rightarrow> string \<Rightarrow> bool \<Rightarrow> exn + 'f model_handle"

text \<open>\<open>str(KeyError(key))\<close>: the key between single quotes.\<close>

definition key_error :: "string \<Rightarrow> exn" where
  "key_error key = [CHR 0x27] @ key @ [CHR 0x27]"

text \<open>A startup handler returns its effects, the new state and the exception it re-raised,
  if any. \<open>startup_event\<close> is registered whenever the module is loaded.\<close>

definition startup_event :: "'f constructor \<Rightarrow> 'f process
    \<Rightarrow> 'f event list \<times> 'f process \<times> exn option" where
  "startup_event BGEM3EmbeddingFunction p =
     (let name = ''BAAI/bge-m3''; dev = ''cpu''; use_fp16 = False;
          before = [Log INFO (LoadingModel name dev), Construct name dev use_fp16]
      in case BGEM3EmbeddingFunction name dev use_fp16 of
           Inl e \<Rightarrow> (before @ [Log ERROR (FailedToLoad e)], p, Some e)
         | Inr ef \<Rightarrow> (before @ [Log INFO ModelLoaded], p\<lparr>bge_m3_ef := Some ef\<rparr>, None))"

text \<open>The first part of \<open>override_model_settings\<close>: \<open>if args.local_model_path:\<close> holds
  for a path that is given and not the empty string. The cache variable is assigned
  before the path is looked up on disk.\<close>

definition resolve_model :: "os_path \<Rightarrow> args \<Rightarrow> 'f process
    \<Rightarrow> 'f event list \<times> 'f process \<times> string" where
  "resolve_model os a p =
     (case local_model_path a of
        None \<Rightarrow> ([], p, model a)
      | Some given \<Rightarrow>
          if given = [] then ([], p, model a)
          else
            (let local = abspath os given;
                 ev = [Log INFO (UsingLocalModelPath local),
                       SetEnv ''TRANSFORMERS_CACHE'' (dirname os local)];
                 p' = p\<lparr>environ := (environ p)(''TRANSFORMERS_CACHE'' \<mapsto> dirname os local)\<rparr>
             in if path_exists os local then (ev, p', local)
                else (ev @ [Log WARNING (LocalModelPathNotFound local)], p', model a)))"

text \<open>The handle is assigned as soon as the constructor returns; the two log lines after it
  index \<open>dim\<close> and raise \<open>KeyError\<close> for a missing key.\<close>

definition override_model_settings :: "os_path \<Rightarrow> 'f constructor \<Rightarrow> args \<Rightarrow> 'f process
    \<Rightarrow> 'f event list \<times> 'f process \<times> exn option" where
  "override_model_settings os BGEM3EmbeddingFunction a p =
     (case resolve_model os a p of
        (ev, p1, name) \<Rightarrow>
          (let before = ev @ [Log INFO (LoadingModel name (device a)),
                              Construct name (device a) (fp16 a)]
           in case BGEM3EmbeddingFunction name (device a) (fp16 a) of
                Inl e \<Rightarrow> (before @ [Log ERROR (FailedToLoad e)], p1, Some e)
              | Inr ef \<Rightarrow>
                  (let p2 = p1\<lparr>bge_m3_ef := Some ef\<rparr>;
                       loaded = before @ [Log INFO ModelLoaded]
                   in case ef_dim ef ''dense'' of
                        None \<Rightarrow>
                          (loaded @ [Log ERROR (FailedToLoad (key_error ''dense''))], p2,
                           Some (key_error ''dense''))
                      | Some d \<Rightarrow>
                          (case ef_dim ef ''sparse'' of
                             None \<Rightarrow>
                               (loaded @ [Log INFO (DenseDimension d),
                                  Log ERROR (FailedToLoad (key_error ''sparse''))], p2,
                                Some (key_error ''sparse''))
                           | Some s \<Rightarrow>
                               (loaded @ [Log INFO (DenseDimension d),
                                  Log INFO (SparseDimension s)], p2, None)))))"

text \<open>\<open>override_model_settings\<close> is registered, after \<open>startup_event\<close>, only under
  \<open>if __name__ == "__main__"\<close>. The framework runs the registered startup handlers in
  the order of registration and stops at the first that raises.\<close>

datatype launch = Imported | Script args

definition startup :: "os_path \<Rightarrow> 'f constructor \<Rightarrow> launch \<Rightarrow> 'f process
    \<Rightarrow> 'f event list \<times> 'f process \<times> exn option" where
  "startup os BGEM3EmbeddingFunction l p =
     (case startup_event BGEM3EmbeddingFunction p of
        (ev, p1, Some e) \<Rightarrow> (ev, p1, Some e)
      | (ev, p1, None) \<Rightarrow>
          (case l of
             Imported \<Rightarrow> (ev, p1, None)
           | Script a \<Rightarrow>
               (case override_model_settings os BGEM3EmbeddingFunction a p1 of
                  (ev2, p2, r) \<Rightarrow> (ev @ ev2, p2, r))))"

text \<open>After startup the server handles requests one after the other. No handler assigns the
  global or the environment: the state it leaves is the state it found.\<close>

datatype request = PostEmbed embedding_request | PostEmbedDocument embedding_request | GetHealth

datatype 'f response =
    EmbeddingResult "'f embedding_response http"
  | HealthResult "health_body http"

fun handle_request :: "'f process \<Rightarrow> request \<Rightarrow> 'f event list \<times> 'f process \<times> 'f response" where
  "handle_request p (PostEmbed r) =
     (case embed (bge_m3_ef p) r of (ev, res) \<Rightarrow> (ev, p, EmbeddingResult res))"
| "handle_request p (PostEmbedDocument r) =
     (case embed_document (bge_m3_ef p) r of (ev, res) \<Rightarrow> (ev, p, EmbeddingResult res))"
| "handle_request p GetHealth =
     (case health_check (bge_m3_ef p) of (ev, res) \<Rightarrow> (ev, p, HealthResult res))"

fun serve :: "'f process \<Rightarrow> request list \<Rightarrow> 'f event list \<times> 'f process" where
  "serve p [] = ([], p)"
| "serve p (rq # rqs) =
     (case handle_request p rq of
        (ev, p1, _) \<Rightarrow> (case serve p1 rqs of (evs, p2) \<Rightarrow> (ev @ evs, p2)))"

text \<open>A concrete operating system for the examples: \<open>dirname\<close> as \<open>posixpath\<close> computes it,
  \<open>abspath\<close> for paths without \<open>.\<close>, \<open>..\<close> or repeated slashes under the working
  directory \<open>/srv/app\<close>, and a disk on which only \<open>/models/bge-m3\<close> exists. The example
  constructor always succeeds and names the handle as it was asked to.\<close>

definition posix_dirname :: "string \<Rightarrow> string" where
  "posix_dirname p =
     (let head = rev (dropWhile (\<lambda>c. c \<noteq> CHR ''/'') (rev p))
      in if head \<noteq> [] \<and> \<not> list_all (\<lambda>c. c = CHR ''/'') head
         then rev (dropWhile (\<lambda>c. c = CHR ''/'') (rev head))
         else head)"

definition example_os :: os_path where
  "example_os =
     \<lparr>abspath = (\<lambda>p. if take 1 p = ''/'' then p else ''/srv/app/'' @ p),
      dirname = posix_dirname,
      path_exists = (\<lambda>p. p = ''/models/bge-m3'')\<rparr>"

definition example_constructor :: "nat constructor" where
  "example_constructor name dev use_fp16 = Inr (example_ef\<lparr>ef_model_name := name\<rparr>)"

definition example_args :: args where
  "example_args =
     \<lparr>host = ''127.0.0.1'', port = 8000, model = ''BAAI/bge-m3'',
      local_model_path = Some ''/models/bge-m3'', device = ''cpu'', fp16 = False\<rparr>"

definition missing_path_args :: args where
  "missing_path_args = example_args\<lparr>local_model_path := Some ''/missing/bge-m3''\<rparr>"

definition initial_process :: "nat process" where
  "initial_process = \<lparr>bge_m3_ef = None, environ = Map.empty\<rparr>"

text \<open>The value of \<open>model_name\<close> when \<open>override_model_settings\<close> calls the
  constructor.\<close>

definition chosen_model :: "os_path \<Rightarrow> args \<Rightarrow> string" where
  "chosen_model os a =
     (case local_model_path a of
        None \<Rightarrow> model a
      | Some given \<Rightarrow>
          if given \<noteq> [] \<and> path_exists os (abspath os given) then abspath os given
          else model a)"

section \<open>Facts about the serialization\<close>

lemma comprehension_Inr_iff:
  "comprehension f xs = Inr ys \<longleftrightarrow> map f xs = map Inr ys"
proof (induction xs arbitrary: ys)
  case Nil
  then show ?case by auto
next
  case (Cons x xs)
  show ?case
  proof (cases "f x")
    case (Inl e)
    then show ?thesis by (cases ys) auto
  next
    case (Inr y)
    show ?thesis
    proof (cases "comprehension f xs")
      case (Inl e)
      with Inr Cons.IH show ?thesis
        by (cases ys) (auto simp del: map_eq_conv)
    next
      case r: (Inr zs)
      with Inr Cons.IH [of zs] Cons.IH show ?thesis
        by (cases ys) auto
    qed
  qed
qed

lemma comprehension_Inl_not_map:
  "comprehension f xs = Inl e \<Longrightarrow> map f xs = map Inr ys \<Longrightarrow> False"
  using comprehension_Inr_iff [of f xs ys] by simp

lemma serializable_embeddings_Inr_iff:
  "serializable_embeddings emb = Inr se \<longleftrightarrow>
   (\<exists>dense dl sparse sl. dense_batch emb = Inr dense \<and> map tolist dense = map Inr dl
      \<and> sparse_batch emb = Inr sparse \<and> map serialize_sparse sparse = map Inr sl
      \<and> se = [(''dense'', DenseList dl), (''sparse'', SparseList sl)])"
  unfolding serializable_embeddings_def
  by (auto split: sum.splits simp: comprehension_Inr_iff dest: comprehension_Inl_not_map)

lemma post_result_raise:
  "encode_op m ef (texts request) = Inl e \<Longrightarrow>
   snd (post m (Some ef) request) =
     Returned \<lparr>embeddings = [], error = Some (failure_prefix m @ e)\<rparr>"
  by (cases m) (simp_all add: Let_def)

lemma post_result_serialize:
  "encode_op m ef (texts request) = Inr emb \<Longrightarrow>
   snd (post m (Some ef) request) =
     (case serializable_embeddings emb of
        Inl e \<Rightarrow> Returned \<lparr>embeddings = [], error = Some (failure_prefix m @ e)\<rparr>
      | Inr se \<Rightarrow> Returned \<lparr>embeddings = se, error = None\<rparr>)"
  by (cases m) (simp_all add: Let_def split: sum.splits)

lemma serialize_sparse_Inr_iff:
  "serialize_sparse s = Inr v \<longleftrightarrow>
   indices_tolist s = Inr (sv_indices v) \<and> data_tolist s = Inr (sv_values v)
     \<and> shape_attr s = Inr (sv_shape v)"
  unfolding serialize_sparse_def
  by (cases v) (auto split: sum.splits)

lemma post_returns:
  "\<exists>response. snd (post m (Some ef) request) = Returned response"
proof (cases "encode_op m ef (texts request)")
  case (Inl e)
  then show ?thesis using post_result_raise by blast
next
  case (Inr emb)
  then show ?thesis
    using post_result_serialize [OF Inr]
    by (cases "serializable_embeddings emb") auto
qed

lemma failure_prefix_nonempty: "failure_prefix m @ e \<noteq> []"
  by (cases m) simp_all

lemma post_no_error_serialized:
  assumes "encode_op m ef (texts request) = Inr emb"
    and "snd (post m (Some ef) request) = Returned response"
    and "error response = None"
  shows "serializable_embeddings emb = Inr (embeddings response)"
  using post_result_serialize [OF assms(1)] assms(2,3)
  by (cases "serializable_embeddings emb") auto

lemma post_success_iff:
  assumes "encode_op m ef (texts request) = Inr emb"
    and "dense_batch emb = Inr dense" and "sparse_batch emb = Inr sparse"
  shows "snd (post m (Some ef) request) =
           Returned \<lparr>embeddings = [(''dense'', DenseList dl), (''sparse'', SparseList sl)],
             error = None\<rparr>
         \<longleftrightarrow> map tolist dense = map Inr dl \<and> map serialize_sparse sparse = map Inr sl"
proof (cases "serializable_embeddings emb")
  case (Inl e)
  have "\<not> (map tolist dense = map Inr dl \<and> map serialize_sparse sparse = map Inr sl)"
    using Inl assms(2,3) serializable_embeddings_Inr_iff [of emb
        "[(''dense'', DenseList dl), (''sparse'', SparseList sl)]"]
    by auto
  then show ?thesis
    using post_result_serialize [OF assms(1)] Inl by simp
next
  case (Inr se)
  then show ?thesis
    using post_result_serialize [OF assms(1)] assms(2,3)
      serializable_embeddings_Inr_iff [of emb se]
      serializable_embeddings_Inr_iff [of emb
        "[(''dense'', DenseList dl), (''sparse'', SparseList sl)]"]
    by auto
qed

lemma post_success_shape:
  assumes "encode_op m ef (texts request) = Inr emb"
    and "snd (post m (Some ef) request) = Returned response"
    and "error response = None"
  shows "\<exists>dl sl. embeddings response = [(''dense'', DenseList dl), (''sparse'', SparseList sl)]"
proof -
  have "serializable_embeddings emb = Inr (embeddings response)"
    using post_no_error_serialized [OF assms] .
  then show ?thesis by (auto simp: serializable_embeddings_Inr_iff)
qed



section \<open>Facts about startup and serving\<close>

lemma resolve_model_no_construct:
  "filter is_construct (fst (resolve_model os a p)) = []"
  by (simp add: resolve_model_def Let_def split: option.splits)

lemma handle_request_same_process: "fst (snd (handle_request p rq)) = p"
  by (cases rq) (simp_all split: prod.splits)

lemma handler_no_construct:
  "filter is_construct (fst (embed h r)) = []"
  "filter is_construct (fst (embed_document h r)) = []"
  "filter is_construct (fst (health_check h)) = []"
  by (cases h; simp add: Let_def mismatch_warning_def split: sum.splits)+

lemma handle_request_no_construct: "filter is_construct (fst (handle_request p rq)) = []"
proof (cases rq)
  case (PostEmbed r)
  then show ?thesis
    using handler_no_construct(1) [of "bge_m3_ef p" r] by (auto split: prod.splits)
next
  case (PostEmbedDocument r)
  then show ?thesis
    using handler_no_construct(2) [of "bge_m3_ef p" r] by (auto split: prod.splits)
next
  case GetHealth
  then show ?thesis
    using handler_no_construct(3) [of "bge_m3_ef p"] by (auto split: prod.splits)
qed

lemma serve_same_process:
  "snd (serve p rqs) = p \<and> filter is_construct (fst (serve p rqs)) = []"
proof (induction rqs arbitrary: p)
  case Nil
  then show ?case by simp
next
  case (Cons rq rqs)
  obtain ev p1 res where h: "handle_request p rq = (ev, p1, res)"
    by (cases "handle_request p rq") auto
  have p1: "p1 = p" using handle_request_same_process [of p rq] h by simp
  have ev: "filter is_construct ev = []" using handle_request_no_construct [of p rq] h by simp
  show ?case using Cons.IH [of p] h p1 ev by (auto split: prod.splits)
qed

lemma resolve_model_result:
  "snd (snd (resolve_model os a p)) = chosen_model os a
   \<and> bge_m3_ef (fst (snd (resolve_model os a p))) = bge_m3_ef p"
  by (simp add: resolve_model_def chosen_model_def Let_def split: option.splits)

lemma override_model_settings_constructs:
  "filter is_construct (fst (override_model_settings os ctor a p)) =
     [Construct (chosen_model os a) (device a) (fp16 a)]"
proof -
  obtain ev p1 name where r: "resolve_model os a p = (ev, p1, name)"
    by (cases "resolve_model os a p") auto
  have n: "name = chosen_model os a" using resolve_model_result [of os a p] r by simp
  have "filter is_construct ev = []"
    using resolve_model_no_construct [of os a p] r by simp
  then show ?thesis
    by (simp add: override_model_settings_def r n Let_def split: sum.splits option.splits)
qed

lemma override_model_settings_assigns:
  "ctor (chosen_model os a) (device a) (fp16 a) = Inr ef2 \<Longrightarrow>
   bge_m3_ef (fst (snd (override_model_settings os ctor a p))) = Some ef2"
proof -
  assume c: "ctor (chosen_model os a) (device a) (fp16 a) = Inr ef2"
  obtain ev p1 name where r: "resolve_model os a p = (ev, p1, name)"
    by (cases "resolve_model os a p") auto
  have n: "name = chosen_model os a" using resolve_model_result [of os a p] r by simp
  show ?thesis
    using c by (simp add: override_model_settings_def r n Let_def split: option.splits)
qed

lemma override_model_settings_fails:
  "ctor (chosen_model os a) (device a) (fp16 a) = Inl e \<Longrightarrow>
   bge_m3_ef (fst (snd (override_model_settings os ctor a p))) = bge_m3_ef p
   \<and> snd (snd (override_model_settings os ctor a p)) = Some e"
proof -
  assume c: "ctor (chosen_model os a) (device a) (fp16 a) = Inl e"
  obtain ev p1 name where r: "resolve_model os a p = (ev, p1, name)"
    by (cases "resolve_model os a p") auto
  have n: "name = chosen_model os a" and h: "bge_m3_ef p1 = bge_m3_ef p"
    using resolve_model_result [of os a p] r by simp_all
  show ?thesis
    using c h by (simp add: override_model_settings_def r n Let_def)
qed

lemma startup_event_result:
  "filter is_construct (fst (startup_event ctor p)) = [Construct ''BAAI/bge-m3'' ''cpu'' False]
   \<and> (\<forall>ef. ctor ''BAAI/bge-m3'' ''cpu'' False = Inr ef \<longrightarrow>
         startup_event ctor p =
           (fst (startup_event ctor p), p\<lparr>bge_m3_ef := Some ef\<rparr>, None))
   \<and> (\<forall>e. ctor ''BAAI/bge-m3'' ''cpu'' False = Inl e \<longrightarrow>
         startup_event ctor p = (fst (startup_event ctor p), p, Some e))"
  by (simp add: startup_event_def Let_def split: sum.splits)

section \<open>Requests that arrive while the handle is unset\<close>

text \<open>
  C3. While the global handle is \<open>None\<close>, each of the three handlers raises an
  HTTPException with a detail message: status 500 for \<open>POST /embed\<close> and
  \<open>POST /embed/document\<close>, status 503 for \<open>GET /health\<close>. It causes no effect at all
  before doing so: in particular no encode operation is called, and no embeddings are
  produced.
\<close>

theorem unset_handle_fails_fast:
  "embed None request = ([], HTTPException 500 ''Embedding model not initialized'')
   \<and> embed_document None request = ([], HTTPException 500 ''Embedding model not initialized'')
   \<and> health_check None = ([], HTTPException 503 ''Embedding model not initialized'')
   \<and> filter is_encode_call (fst (embed None request)) = []
   \<and> filter is_encode_call (fst (embed_document None request)) = []
   \<and> filter is_encode_call (fst (health_check None)) = []"
  by simp

section \<open>The embeddings follow the library's output\<close>

text \<open>
  C1 as stated fails: the handlers never compare what the library returned with the
  request's texts. Here the encode call succeeds on two texts and returns one dense
  array and no sparse structure; the response carries no error, one dense vector and no
  sparse entry.
\<close>

theorem fewer_embeddings_than_texts:
  "snd (post Query (Some miscounting_ef) two_texts_request) =
     Returned \<lparr>embeddings = [(''dense'', DenseList [[3, 4]]), (''sparse'', SparseList [])],
       error = None\<rparr>
   \<and> encode_op Query miscounting_ef (texts two_texts_request) =
       Inr \<lparr>dense_batch = Inr [\<lparr>tolist = Inr [3, 4]\<rparr>], sparse_batch = Inr []\<rparr>
   \<and> length (texts two_texts_request) = 2
   \<and> length [[3, 4 :: nat]] \<noteq> length (texts two_texts_request)
   \<and> length ([] :: nat sparse_vector list) \<noteq> length (texts two_texts_request)"
  by (simp add: miscounting_ef_def two_texts_request_def Let_def mismatch_warning_def
      serializable_embeddings_def)

text \<open>
  C1, amended. On either POST route, when the encode call on the request's texts
  succeeds and returns a dense and a sparse batch, the handler returns the response
  without error that holds the lists \<open>dl\<close> and \<open>sl\<close> exactly when \<open>dl\<close> is the
  conversion of the dense batch and \<open>sl\<close> the conversion of the sparse batch, entry by
  entry. So every response without error holds exactly one dense vector per dense array
  the library returned and one sparse entry per sparse structure it returned, each the
  conversion of the library's entry at the same position; the number of dense vectors
  (of sparse entries) equals the number of texts exactly when the library returned that
  many dense arrays (sparse structures). Empty batches from the library give empty
  dense and sparse lists.
\<close>

theorem embeddings_follow_library_output:
  assumes "encode_op m ef (texts request) = Inr emb"
    and "dense_batch emb = Inr dense" and "sparse_batch emb = Inr sparse"
  shows "(\<forall>dl sl.
            snd (post m (Some ef) request) =
              Returned \<lparr>embeddings = [(''dense'', DenseList dl), (''sparse'', SparseList sl)],
                error = None\<rparr>
            \<longleftrightarrow> map tolist dense = map Inr dl \<and> map serialize_sparse sparse = map Inr sl)
     \<and> (\<forall>response. snd (post m (Some ef) request) = Returned response \<and> error response = None
           \<longrightarrow> (\<exists>dl sl.
                  embeddings response = [(''dense'', DenseList dl), (''sparse'', SparseList sl)]
                  \<and> length dl = length dense \<and> length sl = length sparse
                  \<and> (\<forall>i<length dense. tolist (dense ! i) = Inr (dl ! i))
                  \<and> (\<forall>i<length sparse. serialize_sparse (sparse ! i) = Inr (sl ! i))
                  \<and> (length dl = length (texts request)
                        \<longleftrightarrow> length dense = length (texts request))
                  \<and> (length sl = length (texts request)
                        \<longleftrightarrow> length sparse = length (texts request))))
     \<and> (dense = [] \<and> sparse = [] \<longrightarrow>
           snd (post m (Some ef) request) =
             Returned \<lparr>embeddings = [(''dense'', DenseList []), (''sparse'', SparseList [])],
               error = None\<rparr>)"
proof -
  have iff: "snd (post m (Some ef) request) =
        Returned \<lparr>embeddings = [(''dense'', DenseList dl), (''sparse'', SparseList sl)],
          error = None\<rparr>
      \<longleftrightarrow> map tolist dense = map Inr dl \<and> map serialize_sparse sparse = map Inr sl" for dl sl
    using post_success_iff [OF assms] .
  have shape: "\<exists>dl sl.
      embeddings response = [(''dense'', DenseList dl), (''sparse'', SparseList sl)]
      \<and> length dl = length dense \<and> length sl = length sparse
      \<and> (\<forall>i<length dense. tolist (dense ! i) = Inr (dl ! i))
      \<and> (\<forall>i<length sparse. serialize_sparse (sparse ! i) = Inr (sl ! i))
      \<and> (length dl = length (texts request) \<longleftrightarrow> length dense = length (texts request))
      \<and> (length sl = length (texts request) \<longleftrightarrow> length sparse = length (texts request))"
    if r: "snd (post m (Some ef) request) = Returned response" and n: "error response = None"
    for response
  proof -
    obtain dl sl where e: "embeddings response =
        [(''dense'', DenseList dl), (''sparse'', SparseList sl)]"
      using post_success_shape [OF assms(1) r n] by blast
    have "response = \<lparr>embeddings = [(''dense'', DenseList dl), (''sparse'', SparseList sl)],
        error = None\<rparr>"
      using e n by (cases response) simp
    then have maps: "map tolist dense = map Inr dl"
        "map serialize_sparse sparse = map Inr sl"
      using iff [of dl sl] r by simp_all
    have ld: "length dl = length dense" using maps(1) by (metis length_map)
    have ls: "length sl = length sparse" using maps(2) by (metis length_map)
    have nd: "tolist (dense ! i) = Inr (dl ! i)" if "i < length dense" for i
    proof -
      have "map tolist dense ! i = map Inr dl ! i" using maps(1) by simp
      then show ?thesis using that ld by simp
    qed
    have ns: "serialize_sparse (sparse ! i) = Inr (sl ! i)" if "i < length sparse" for i
    proof -
      have "map serialize_sparse sparse ! i = map Inr sl ! i" using maps(2) by simp
      then show ?thesis using that ls by simp
    qed
    show ?thesis using e ld ls nd ns by auto
  qed
  have empty: "snd (post m (Some ef) request) =
      Returned \<lparr>embeddings = [(''dense'', DenseList []), (''sparse'', SparseList [])],
        error = None\<rparr>" if "dense = []" "sparse = []"
    using iff [of "[]" "[]"] that by simp
  show ?thesis using iff shape empty by blast
qed

theorem embeddings_follow_library_output_witness:
  "snd (post Query (Some example_ef) two_texts_request) =
     Returned \<lparr>embeddings = [(''dense'', DenseList [[5, 7], [6, 7]]),
         (''sparse'', SparseList
            [\<lparr>sv_indices = [2, 5], sv_values = [5, 1], sv_shape = [1, 8]\<rparr>,
             \<lparr>sv_indices = [2, 5], sv_values = [6, 1], sv_shape = [1, 8]\<rparr>])],
       error = None\<rparr>"
  using embeddings_follow_library_output [of Query example_ef two_texts_request
      "example_output [''hello'', ''world!'']"
      "[\<lparr>tolist = Inr [5, 7]\<rparr>, \<lparr>tolist = Inr [6, 7]\<rparr>]"
      "[\<lparr>indices_tolist = Inr [2, 5], data_tolist = Inr [5, 1], shape_attr = Inr [1, 8]\<rparr>,
        \<lparr>indices_tolist = Inr [2, 5], data_tolist = Inr [6, 1], shape_attr = Inr [1, 8]\<rparr>]"]
  by (simp add: example_ef_def two_texts_request_def example_output_def serialize_sparse_def)

section \<open>Every response carries embeddings or an error\<close>

text \<open>
  C2. With the handle set, both POST routes always return a response (status 200) and
  never raise. The response either has no error and an embeddings dictionary with the
  keys \<open>"dense"\<close> and \<open>"sparse"\<close>, or has a non-empty error string and an empty
  embeddings dictionary. When the encode call raises, or the conversion of its output
  raises, the response is the one with empty embeddings whose error string is the
  route's fixed prefix followed by the exception's message.
\<close>

theorem response_is_embeddings_or_error:
  "(\<exists>response. snd (post m (Some ef) request) = Returned response
      \<and> status_code (snd (post m (Some ef) request)) = 200
      \<and> (error response = None \<and> map fst (embeddings response) = [''dense'', ''sparse'']
          \<or> (\<exists>msg. error response = Some msg \<and> msg \<noteq> [] \<and> embeddings response = [])))
   \<and> (\<forall>e. encode_op m ef (texts request) = Inl e
          \<or> (\<exists>emb. encode_op m ef (texts request) = Inr emb
                \<and> serializable_embeddings emb = Inl e)
        \<longrightarrow> snd (post m (Some ef) request) =
              Returned \<lparr>embeddings = [], error = Some (failure_prefix m @ e)\<rparr>)"
proof (cases "encode_op m ef (texts request)")
  case (Inl e)
  then show ?thesis
    using post_result_raise [OF Inl] failure_prefix_nonempty [of m e] by auto
next
  case (Inr emb)
  show ?thesis
  proof (cases "serializable_embeddings emb")
    case l: (Inl e)
    then show ?thesis
      using post_result_serialize [OF Inr] Inr failure_prefix_nonempty [of m e]
      by auto
  next
    case r: (Inr se)
    then have "map fst se = [''dense'', ''sparse'']"
      by (auto simp: serializable_embeddings_Inr_iff)
    then show ?thesis
      using post_result_serialize [OF Inr] Inr r by auto
  qed
qed

theorem response_is_embeddings_or_error_witness:
  "snd (post Document (Some failing_ef) example_request) =
     Returned \<lparr>embeddings = [],
       error = Some ''Failed to generate document embeddings: out of memory''\<rparr>"
  using response_is_embeddings_or_error [of Document failing_ef example_request]
  by (simp add: failing_ef_def example_request_def)

section \<open>Sparse vectors copy the library's structure\<close>




section \<open>A different model name only warns\<close>

text \<open>
  C7. A request whose \<open>model_name\<close> differs from the loaded model's name gets
  exactly the response of the same request with the loaded model's name, and the
  handler returns (it does not raise). Its effects are those of the matching request
  preceded by one warning, and it calls the loaded model's encode operation of the
  route once, on the request's texts. The response is computed from that call: the
  error response when the call or the conversion raises, and otherwise the converted
  output of the call, entry by entry.
\<close>

theorem model_name_mismatch_only_warns:
  assumes "model_name request \<noteq> ef_model_name ef"
  shows "snd (post m (Some ef) request) =
           snd (post m (Some ef) (request\<lparr>model_name := ef_model_name ef\<rparr>))
     \<and> fst (post m (Some ef) request) =
           Log WARNING (ModelMismatch (model_name request) (ef_model_name ef))
             # fst (post m (Some ef) (request\<lparr>model_name := ef_model_name ef\<rparr>))
     \<and> (\<exists>response. snd (post m (Some ef) request) = Returned response)
     \<and> filter is_encode_call (fst (post m (Some ef) request)) = [EncodeCall m (texts request)]
     \<and> snd (post m (Some ef) request) =
           (case encode_op m ef (texts request) of
              Inl e \<Rightarrow> Returned \<lparr>embeddings = [], error = Some (failure_prefix m @ e)\<rparr>
            | Inr emb \<Rightarrow>
                (case serializable_embeddings emb of
                   Inl e \<Rightarrow> Returned \<lparr>embeddings = [], error = Some (failure_prefix m @ e)\<rparr>
                 | Inr se \<Rightarrow> Returned \<lparr>embeddings = se, error = None\<rparr>))
     \<and> (\<forall>emb dense sparse dl sl.
          encode_op m ef (texts request) = Inr emb
          \<and> dense_batch emb = Inr dense \<and> map tolist dense = map Inr dl
          \<and> sparse_batch emb = Inr sparse \<and> map serialize_sparse sparse = map Inr sl
          \<longrightarrow> snd (post m (Some ef) request) =
                Returned \<lparr>embeddings = [(''dense'', DenseList dl), (''sparse'', SparseList sl)],
                  error = None\<rparr>)"
proof -
  have rel: "snd (post m (Some ef) request) =
        snd (post m (Some ef) (request\<lparr>model_name := ef_model_name ef\<rparr>))
      \<and> fst (post m (Some ef) request) =
        Log WARNING (ModelMismatch (model_name request) (ef_model_name ef))
          # fst (post m (Some ef) (request\<lparr>model_name := ef_model_name ef\<rparr>))
      \<and> filter is_encode_call (fst (post m (Some ef) request)) = [EncodeCall m (texts request)]"
    using assms
    by (cases m) (auto simp: Let_def mismatch_warning_def split: sum.splits)
  have tie: "snd (post m (Some ef) request) =
      (case encode_op m ef (texts request) of
         Inl e \<Rightarrow> Returned \<lparr>embeddings = [], error = Some (failure_prefix m @ e)\<rparr>
       | Inr emb \<Rightarrow>
           (case serializable_embeddings emb of
              Inl e \<Rightarrow> Returned \<lparr>embeddings = [], error = Some (failure_prefix m @ e)\<rparr>
            | Inr se \<Rightarrow> Returned \<lparr>embeddings = se, error = None\<rparr>))"
  proof (cases "encode_op m ef (texts request)")
    case (Inl e)
    then show ?thesis using post_result_raise [OF Inl] by simp
  next
    case (Inr emb)
    then show ?thesis using post_result_serialize [OF Inr] by simp
  qed
  have conv: "snd (post m (Some ef) request) =
      Returned \<lparr>embeddings = [(''dense'', DenseList dl), (''sparse'', SparseList sl)],
        error = None\<rparr>"
    if "encode_op m ef (texts request) = Inr emb"
      "dense_batch emb = Inr dense" "map tolist dense = map Inr dl"
      "sparse_batch emb = Inr sparse" "map serialize_sparse sparse = map Inr sl"
    for emb dense sparse dl sl
    using post_success_iff [OF that(1,2,4), of dl sl] that(3,5) by simp
  show ?thesis using rel tie conv post_returns [of m ef request] by blast
qed

theorem model_name_mismatch_only_warns_witness:
  "snd (post Query (Some example_ef) other_model_request) =
     Returned \<lparr>embeddings = [(''dense'', DenseList [[11, 7]]),
         (''sparse'', SparseList [\<lparr>sv_indices = [2, 5], sv_values = [11, 1], sv_shape = [1, 8]\<rparr>])],
       error = None\<rparr>
   \<and> snd (post Query (Some example_ef) other_model_request) =
     snd (post Query (Some example_ef) (other_model_request\<lparr>model_name := ''BAAI/bge-m3''\<rparr>))
   \<and> fst (post Query (Some example_ef) other_model_request) =
     Log WARNING (ModelMismatch ''some/other-model'' ''BAAI/bge-m3'')
       # fst (post Query (Some example_ef) (other_model_request\<lparr>model_name := ''BAAI/bge-m3''\<rparr>))
   \<and> filter is_encode_call (fst (post Query (Some example_ef) other_model_request)) =
     [EncodeCall Query [''hello world'']]"
  using model_name_mismatch_only_warns [of other_model_request example_ef Query]
  by (simp add: example_ef_def other_model_request_def example_output_def
      serializable_embeddings_def serialize_sparse_def mismatch_warning_def Let_def)

section \<open>The health check\<close>

text \<open>
  C8. With the handle set, \<open>GET /health\<close> calls \<open>encode_queries\<close> exactly once, on
  the one fixed probe sentence. If the call succeeds the handler returns the status
  \<open>"healthy"\<close>, the loaded model's name and the dense and sparse dimensions the handle
  reports; if the call raises, the handler raises HTTPException 503 whose detail is
  \<open>"Model check failed: "\<close> followed by the exception's message.
\<close>

theorem health_check_probes_once:
  "filter is_encode_call (fst (health_check (Some ef))) =
     [EncodeCall Query [''This is a test sentence for health check.'']]
   \<and> (\<forall>out. encode_queries ef [''This is a test sentence for health check.''] = Inr out \<longrightarrow>
         snd (health_check (Some ef)) =
           Returned \<lparr>status = ''healthy'', model_id = ef_model_name ef,
             dimensions = [(''dense'', dim_get ef ''dense''), (''sparse'', dim_get ef ''sparse'')]\<rparr>
         \<and> (\<forall>d. ef_dim ef ''dense'' = Some d \<longrightarrow> dim_get ef ''dense'' = d)
         \<and> (\<forall>s. ef_dim ef ''sparse'' = Some s \<longrightarrow> dim_get ef ''sparse'' = s))
   \<and> (\<forall>e. encode_queries ef [''This is a test sentence for health check.''] = Inl e \<longrightarrow>
         snd (health_check (Some ef)) = HTTPException 503 (''Model check failed: '' @ e))"
  by (cases "encode_queries ef [test_text]") (simp_all add: test_text_def dim_get_def)

theorem health_check_probes_once_witness:
  "snd (health_check (Some example_ef)) =
     Returned \<lparr>status = ''healthy'', model_id = ''BAAI/bge-m3'',
       dimensions = [(''dense'', 1024), (''sparse'', 250002)]\<rparr>
   \<and> snd (health_check (Some failing_ef)) =
     HTTPException 503 ''Model check failed: out of memory''"
  using health_check_probes_once [of example_ef] health_check_probes_once [of failing_ef]
  by (simp add: example_ef_def failing_ef_def dim_get_def)

section \<open>Dimensions the handle does not report\<close>

text \<open>
  C10. With the handle set and a successful probe, \<open>GET /health\<close> returns the
  healthy body even when the handle's dimension mapping lacks the key \<open>"dense"\<close> or
  \<open>"sparse"\<close>; the body reports 0 for each dimension that is missing.
\<close>

theorem health_check_missing_dimension_is_zero:
  assumes "encode_queries ef [test_text] = Inr out"
  shows "\<exists>body. snd (health_check (Some ef)) = Returned body
     \<and> status body = ''healthy''
     \<and> (ef_dim ef ''dense'' = None \<longrightarrow> map_of (dimensions body) ''dense'' = Some 0)
     \<and> (ef_dim ef ''sparse'' = None \<longrightarrow> map_of (dimensions body) ''sparse'' = Some 0)"
  using assms by (simp add: dim_get_def)

theorem health_check_missing_dimension_is_zero_witness:
  "\<exists>body. snd (health_check (Some dimless_ef)) = Returned body
     \<and> status body = ''healthy''
     \<and> map_of (dimensions body) ''dense'' = Some 0
     \<and> map_of (dimensions body) ''sparse'' = Some 0"
  using health_check_missing_dimension_is_zero
    [of dimless_ef "example_output [''This is a test sentence for health check.'']"]
  by (simp add: dimless_ef_def example_ef_def test_text_def)

section \<open>How often the handle is constructed\<close>

text \<open>
  C5 as stated fails when the server is run as a script: both startup handlers run, the
  constructor is called twice, and \<open>override_model_settings\<close> assigns the global that
  \<open>startup_event\<close> had already set. Here the first handle is named \<open>BAAI/bge-m3\<close> and
  the handle in place after startup is named by the local path.
\<close>

theorem handle_constructed_twice_as_script:
  "\<not> length (filter is_construct
        (fst (startup example_os example_constructor (Script example_args) initial_process))) \<le> 1
   \<and> map_option ef_model_name
        (bge_m3_ef (fst (snd (startup_event example_constructor initial_process))))
       = Some ''BAAI/bge-m3''
   \<and> map_option ef_model_name
        (bge_m3_ef (fst (snd (startup example_os example_constructor (Script example_args)
           initial_process))))
       = Some ''/models/bge-m3''"
  by (simp add: startup_def startup_event_def override_model_settings_def resolve_model_def
      example_os_def example_constructor_def example_args_def initial_process_def
      example_ef_def posix_dirname_def Let_def)

text \<open>
  C5, amended. When the module is imported, startup calls the library's constructor
  once, with the defaults (\<open>BAAI/bge-m3\<close>, \<open>cpu\<close>, no fp16), and a handle it returns
  is assigned to the global. When the file is run as a script and that first call
  succeeds, startup calls the constructor a second time, with the model identifier,
  device and fp16 flag from the command line: a handle this call returns replaces the
  first one, and if the call raises the first handle stays in place and startup fails.
  If the first call raises, the constructor is not called again and the global is left
  as it was. Once startup is over, serving any sequence of requests leaves the handle
  and the environment as they were and never calls the constructor.
\<close>

theorem startup_constructs_in_order:
  "filter is_construct (fst (startup os ctor Imported p)) =
     [Construct ''BAAI/bge-m3'' ''cpu'' False]
   \<and> (\<forall>ef. ctor ''BAAI/bge-m3'' ''cpu'' False = Inr ef \<longrightarrow>
        bge_m3_ef (fst (snd (startup_event ctor p))) = Some ef
        \<and> bge_m3_ef (fst (snd (startup os ctor Imported p))) = Some ef
        \<and> filter is_construct (fst (startup os ctor (Script a) p)) =
            [Construct ''BAAI/bge-m3'' ''cpu'' False,
             Construct
               (case local_model_path a of
                  None \<Rightarrow> model a
                | Some given \<Rightarrow>
                    if given \<noteq> [] \<and> path_exists os (abspath os given)
                    then abspath os given else model a)
               (device a) (fp16 a)]
        \<and> (\<forall>ef2. ctor (case local_model_path a of
                        None \<Rightarrow> model a
                      | Some given \<Rightarrow>
                          if given \<noteq> [] \<and> path_exists os (abspath os given)
                          then abspath os given else model a)
                    (device a) (fp16 a) = Inr ef2 \<longrightarrow>
              bge_m3_ef (fst (snd (startup os ctor (Script a) p))) = Some ef2)
        \<and> (\<forall>e. ctor (case local_model_path a of
                      None \<Rightarrow> model a
                    | Some given \<Rightarrow>
                        if given \<noteq> [] \<and> path_exists os (abspath os given)
                        then abspath os given else model a)
                  (device a) (fp16 a) = Inl e \<longrightarrow>
              bge_m3_ef (fst (snd (startup os ctor (Script a) p))) = Some ef
              \<and> snd (snd (startup os ctor (Script a) p)) = Some e))
   \<and> (\<forall>e. ctor ''BAAI/bge-m3'' ''cpu'' False = Inl e \<longrightarrow>
        filter is_construct (fst (startup os ctor (Script a) p)) =
          [Construct ''BAAI/bge-m3'' ''cpu'' False]
        \<and> bge_m3_ef (fst (snd (startup os ctor (Script a) p))) = bge_m3_ef p
        \<and> snd (snd (startup os ctor (Script a) p)) = Some e)
   \<and> snd (serve p' rqs) = p'
   \<and> filter is_construct (fst (serve p' rqs)) = []"
proof -
  let ?name = "chosen_model os a"
  have nm: "(case local_model_path a of
        None \<Rightarrow> model a
      | Some given \<Rightarrow>
          if given \<noteq> [] \<and> path_exists os (abspath os given) then abspath os given
          else model a) = ?name"
    by (simp add: chosen_model_def)
  obtain ev where ev: "fst (startup_event ctor p) = ev"
      and c1: "filter is_construct ev = [Construct ''BAAI/bge-m3'' ''cpu'' False]"
    using startup_event_result [of ctor p] by simp
  have imported: "filter is_construct (fst (startup os ctor Imported p)) =
      [Construct ''BAAI/bge-m3'' ''cpu'' False]"
  proof (cases "ctor ''BAAI/bge-m3'' ''cpu'' False")
    case (Inl e)
    then have "startup_event ctor p = (ev, p, Some e)"
      using startup_event_result [of ctor p] ev by simp
    then show ?thesis using c1 by (simp add: startup_def)
  next
    case (Inr ef)
    then have "startup_event ctor p = (ev, p\<lparr>bge_m3_ef := Some ef\<rparr>, None)"
      using startup_event_result [of ctor p] ev by simp
    then show ?thesis using c1 by (simp add: startup_def)
  qed
  have ok: "bge_m3_ef (fst (snd (startup_event ctor p))) = Some ef
      \<and> bge_m3_ef (fst (snd (startup os ctor Imported p))) = Some ef
      \<and> filter is_construct (fst (startup os ctor (Script a) p)) =
          [Construct ''BAAI/bge-m3'' ''cpu'' False, Construct ?name (device a) (fp16 a)]
      \<and> (\<forall>ef2. ctor ?name (device a) (fp16 a) = Inr ef2 \<longrightarrow>
            bge_m3_ef (fst (snd (startup os ctor (Script a) p))) = Some ef2)
      \<and> (\<forall>e. ctor ?name (device a) (fp16 a) = Inl e \<longrightarrow>
            bge_m3_ef (fst (snd (startup os ctor (Script a) p))) = Some ef
            \<and> snd (snd (startup os ctor (Script a) p)) = Some e)"
    if c: "ctor ''BAAI/bge-m3'' ''cpu'' False = Inr ef" for ef
  proof -
    let ?p1 = "p\<lparr>bge_m3_ef := Some ef\<rparr>"
    have se: "startup_event ctor p = (ev, ?p1, None)"
      using startup_event_result [of ctor p] ev c by simp
    obtain ev2 p2 r2 where ov: "override_model_settings os ctor a ?p1 = (ev2, p2, r2)"
      by (cases "override_model_settings os ctor a ?p1") auto
    have st: "startup os ctor (Script a) p = (ev @ ev2, p2, r2)"
      by (simp add: startup_def se ov)
    have c2: "filter is_construct ev2 = [Construct ?name (device a) (fp16 a)]"
      using override_model_settings_constructs [of os ctor a ?p1] ov by simp
    have a2: "bge_m3_ef p2 = Some ef2" if "ctor ?name (device a) (fp16 a) = Inr ef2" for ef2
      using override_model_settings_assigns [where ctor = ctor and os = os and a = a
          and ?ef2.0 = ef2 and p = ?p1] that ov by simp
    have f2: "bge_m3_ef p2 = Some ef \<and> r2 = Some e"
      if "ctor ?name (device a) (fp16 a) = Inl e" for e
      using override_model_settings_fails [where ctor = ctor and os = os and a = a
          and e = e and p = ?p1] that ov by simp
    show ?thesis
      using se st c1 c2 a2 f2 by (simp add: startup_def)
  qed
  have bad: "filter is_construct (fst (startup os ctor (Script a) p)) =
        [Construct ''BAAI/bge-m3'' ''cpu'' False]
      \<and> bge_m3_ef (fst (snd (startup os ctor (Script a) p))) = bge_m3_ef p
      \<and> snd (snd (startup os ctor (Script a) p)) = Some e"
    if c: "ctor ''BAAI/bge-m3'' ''cpu'' False = Inl e" for e
  proof -
    have "startup_event ctor p = (ev, p, Some e)"
      using startup_event_result [of ctor p] ev c by simp
    then show ?thesis using c1 by (simp add: startup_def)
  qed
  show ?thesis
    unfolding nm using imported ok bad serve_same_process [of p' rqs] by blast
qed

theorem startup_constructs_in_order_witness:
  "filter is_construct
     (fst (startup example_os example_constructor (Script example_args) initial_process)) =
     [Construct ''BAAI/bge-m3'' ''cpu'' False, Construct ''/models/bge-m3'' ''cpu'' False]
   \<and> bge_m3_ef (fst (snd (startup_event example_constructor initial_process))) =
       Some (example_ef\<lparr>ef_model_name := ''BAAI/bge-m3''\<rparr>)
   \<and> bge_m3_ef (fst (snd (startup example_os example_constructor (Script example_args)
        initial_process))) = Some (example_ef\<lparr>ef_model_name := ''/models/bge-m3''\<rparr>)"
  using startup_constructs_in_order [of example_os example_constructor initial_process
      example_args initial_process "[]"]
  by (simp add: example_os_def example_constructor_def example_args_def)

section \<open>The model cache location and the model identifier\<close>

text \<open>
  C6 as stated fails for a local path that is given but does not exist on disk: the
  cache location is redirected to its parent directory all the same.
\<close>

theorem cache_redirected_for_missing_path:
  "\<not> (environ (fst (snd (override_model_settings example_os example_constructor
            missing_path_args initial_process))) ''TRANSFORMERS_CACHE'' = Some ''/missing''
        \<longleftrightarrow> local_model_path missing_path_args = Some ''/missing/bge-m3''
            \<and> path_exists example_os (abspath example_os ''/missing/bge-m3''))"
  by (simp add: override_model_settings_def resolve_model_def
      example_os_def example_constructor_def example_args_def missing_path_args_def
      initial_process_def example_ef_def posix_dirname_def Let_def)

text \<open>
  C6, amended. \<open>override_model_settings\<close> redirects the cache location to the parent
  directory of the absolute local path exactly when a non-empty local path is given,
  whether or not it exists on disk. The model identifier handed to the constructor is
  the absolute local path when the path is given and exists, and the identifier from
  the command line when the path is missing from the disk or not given; in the latter
  case the environment is left unchanged.
\<close>

theorem cache_redirected_when_path_given:
  "(\<forall>given. local_model_path a = Some given \<and> given \<noteq> [] \<longrightarrow>
      environ (fst (snd (override_model_settings os ctor a p)))
        = (environ p)(''TRANSFORMERS_CACHE'' \<mapsto> dirname os (abspath os given))
      \<and> filter is_construct (fst (override_model_settings os ctor a p))
        = [Construct (if path_exists os (abspath os given) then abspath os given else model a)
             (device a) (fp16 a)])
   \<and> (local_model_path a = None \<or> local_model_path a = Some [] \<longrightarrow>
      environ (fst (snd (override_model_settings os ctor a p))) = environ p
      \<and> filter is_construct (fst (override_model_settings os ctor a p))
        = [Construct (model a) (device a) (fp16 a)])"
  by (auto simp: override_model_settings_def resolve_model_def Let_def
      split: sum.splits option.splits)

theorem cache_redirected_when_path_given_witness:
  "environ (fst (snd (override_model_settings example_os example_constructor
       missing_path_args initial_process))) ''TRANSFORMERS_CACHE'' = Some ''/missing''
   \<and> filter is_construct (fst (override_model_settings example_os example_constructor
       missing_path_args initial_process)) = [Construct ''BAAI/bge-m3'' ''cpu'' False]
   \<and> filter is_construct (fst (override_model_settings example_os example_constructor
       example_args initial_process)) = [Construct ''/models/bge-m3'' ''cpu'' False]
   \<and> environ (fst (snd (override_model_settings example_os example_constructor
       (example_args\<lparr>local_model_path := None\<rparr>) initial_process))) ''TRANSFORMERS_CACHE'' = None"
  using cache_redirected_when_path_given [of missing_path_args example_os example_constructor
      initial_process]
    cache_redirected_when_path_given [of example_args example_os example_constructor
      initial_process]
    cache_redirected_when_path_given [of "example_args\<lparr>local_model_path := None\<rparr>" example_os
      example_constructor initial_process]
  by (simp add: example_os_def example_args_def missing_path_args_def initial_process_def
      posix_dirname_def)

end
